theory Spec2Isabelle
  imports Main
begin

section \<open>Python values used by nmpi\_saga.py\<close>

text \<open>
  The program is the module \<open>nmpi_saga.py\<close>.  Its functions keep their names; a
  name that starts with an underscore is written without it, and the method
  \<open>JobRunner._handle_output_data\<close>, which shares its name with a function of the
  module, is \<open>JobRunner_handle_output_data\<close>; \<open>JobRunner.next\<close> is \<open>runner_next\<close>.

  Exceptions are values.  A function of the source that can raise returns
  \<open>exn + 'a\<close>; a function that also mutates its arguments or the outside world
  returns the mutated objects next to that result, because a Python exception
  does not undo the mutations made before it.
\<close>

datatype exn =
    KeyError string
  | AttributeError string
  | TypeError string
  | ValueError string
  | UnicodeEncodeError string
  | IOError string
  | IndexError string
  | OSError string
  | Exception string

text \<open>\<open>repr(exception)\<close> of Python 2: class name, then the argument tuple.\<close>

fun exn_class :: "exn \<Rightarrow> string" where
  "exn_class (KeyError m) = ''KeyError''"
| "exn_class (AttributeError m) = ''AttributeError''"
| "exn_class (TypeError m) = ''TypeError''"
| "exn_class (ValueError m) = ''ValueError''"
| "exn_class (UnicodeEncodeError m) = ''UnicodeEncodeError''"
| "exn_class (IOError m) = ''IOError''"
| "exn_class (IndexError m) = ''IndexError''"
| "exn_class (OSError m) = ''OSError''"
| "exn_class (Exception m) = ''Exception''"

fun exn_message :: "exn \<Rightarrow> string" where
  "exn_message (KeyError m) = m"
| "exn_message (AttributeError m) = m"
| "exn_message (TypeError m) = m"
| "exn_message (ValueError m) = m"
| "exn_message (UnicodeEncodeError m) = m"
| "exn_message (IOError m) = m"
| "exn_message (IndexError m) = m"
| "exn_message (OSError m) = m"
| "exn_message (Exception m) = m"

definition repr :: "exn \<Rightarrow> string" where
  "repr e = exn_class e @ ''('' @ [CHR 0x27] @ exn_message e @ [CHR 0x27] @ '',)''"

subsection \<open>Slices and integer division\<close>

text \<open>
  \<open>s[:k]\<close> and \<open>s[k:]\<close> for a Python integer \<open>k\<close>: a negative \<open>k\<close> counts from the
  end, and an index beyond either end is clipped.  Python's \<open>//\<close> is floor division,
  which is \<open>div\<close> on \<open>int\<close>.
\<close>

definition slice_to :: "'a list \<Rightarrow> int \<Rightarrow> 'a list" where
  "slice_to s k = (if 0 \<le> k then take (nat k) s else take (length s - nat (- k)) s)"

definition slice_from :: "'a list \<Rightarrow> int \<Rightarrow> 'a list" where
  "slice_from s k = (if 0 \<le> k then drop (nat k) s else drop (length s - nat (- k)) s)"

subsection \<open>Strings and paths\<close>

definition newline :: string where
  "newline = [CHR 0x0A]"

definition endswith :: "string \<Rightarrow> string \<Rightarrow> bool" where
  "endswith s suf = (length suf \<le> length s \<and> drop (length s - length suf) s = suf)"

definition endswith_any :: "string \<Rightarrow> string list \<Rightarrow> bool" where
  "endswith_any s sufs = (\<exists>suf \<in> set sufs. endswith s suf)"

text \<open>\<open>posixpath.join(a, b)\<close>, \<open>basename\<close>, \<open>dirname\<close> and \<open>splitext(p)[1]\<close>.\<close>

definition join :: "string \<Rightarrow> string \<Rightarrow> string" where
  "join a b =
     (if b \<noteq> [] \<and> hd b = CHR ''/'' then b
      else if a = [] \<or> last a = CHR ''/'' then a @ b
      else a @ ''/'' @ b)"

definition basename :: "string \<Rightarrow> string" where
  "basename p = rev (takeWhile (\<lambda>c. c \<noteq> CHR ''/'') (rev p))"

definition rstrip_slash :: "string \<Rightarrow> string" where
  "rstrip_slash s = rev (dropWhile (\<lambda>c. c = CHR ''/'') (rev s))"

definition dirname :: "string \<Rightarrow> string" where
  "dirname p =
     (let hd0 = take (length p - length (basename p)) p
      in if hd0 \<noteq> [] \<and> (\<exists>c \<in> set hd0. c \<noteq> CHR ''/'') then rstrip_slash hd0 else hd0)"

definition splitext_ext :: "string \<Rightarrow> string" where
  "splitext_ext p =
     (let base = basename p;
          after_dot = rev (takeWhile (\<lambda>c. c \<noteq> CHR ''.'') (rev base));
          before_dot = take (length base - length after_dot - 1) base
      in if CHR ''.'' \<in> set base \<and> (\<exists>c \<in> set before_dot. c \<noteq> CHR ''.'')
         then CHR ''.'' # after_dot else [])"

text \<open>\<open>s.split(" ")\<close> with an explicit separator: one piece more than separators.\<close>

fun split_on :: "char \<Rightarrow> string \<Rightarrow> string list" where
  "split_on sep [] = [[]]"
| "split_on sep (c # cs) =
     (if c = sep then [] # split_on sep cs
      else (case split_on sep cs of [] \<Rightarrow> [[c]] | p # ps \<Rightarrow> (c # p) # ps))"

section \<open>Log truncation\<close>

definition MAX_LOG_SIZE :: int where
  "MAX_LOG_SIZE = 10000"

definition truncation_marker :: string where
  "truncation_marker = [CHR 0x0A, CHR 0x0A] @ ''... truncated...'' @ [CHR 0x0A, CHR 0x0A]"

text \<open>
  \<open>stream[:max_length//2] + marker + stream[-max_length//2:]\<close>: unary minus binds
  tighter than \<open>//\<close>, so the second slice starts at \<open>(-max_length) // 2\<close>.
\<close>

definition truncate_string :: "string \<Rightarrow> int \<Rightarrow> string" where
  "truncate_string stream max_length =
     (if int (length stream) > max_length
      then slice_to stream (max_length div 2) @ truncation_marker
             @ slice_from stream ((- max_length) div 2)
      else stream)"

section \<open>Data model\<close>

text \<open>
  A job is the dictionary the queue server sends.  The keys the program reads
  with a default (\<open>pop("log", ...)\<close>, \<open>get("command", "")\<close>, \<open>'input_data' in\<close>) are
  optional fields, \<open>None\<close> standing for an absent key; \<open>job_id\<close> is the value of
  \<open>'id'\<close> as \<open>str\<close> renders it.  Time stamps (\<open>time.time()\<close>, \<open>st_mtime\<close>) are only
  compared by the program and are integers here.
\<close>

type_synonym timestamp = int

record nmpi_job =
  job_id :: string
  status :: string
  log :: "string option"
  code :: string
  command :: "string option"
  hardware_config :: "(string \<times> string) list option"
  input_data :: "string list option"
  output_data :: "string list"
  resource_uri :: string
  timestamp_completion :: "string option"
  resource_usage :: "int option"
  provenance :: "(string \<times> string) list option"

record job_description =
  working_directory :: string
  executable :: string
  queue :: "string option"
  arguments :: "string list"
  desc_output :: string
  desc_error :: string

record saga_job =
  sj_id :: string
  start_time :: timestamp
  description :: job_description

datatype saga_state = UNKNOWN | NEW | PENDING | RUNNING | DONE | FAILED | CANCELED | SUSPENDED

fun state_name :: "saga_state \<Rightarrow> string" where
  "state_name UNKNOWN = ''Unknown''"
| "state_name NEW = ''New''"
| "state_name PENDING = ''Pending''"
| "state_name RUNNING = ''Running''"
| "state_name DONE = ''Done''"
| "state_name FAILED = ''Failed''"
| "state_name CANCELED = ''Canceled''"
| "state_name SUSPENDED = ''Suspended''"

text \<open>A directory as \<open>os.walk\<close> lists it: files with their \<open>st_mtime\<close>, and subdirectories.\<close>

datatype entry = File string timestamp | Dir string "entry list"

record parsed_url =
  scheme :: string
  url_path :: string

datatype query_response = Warning string | JobRecord nmpi_job

datatype payload = JobFields nmpi_job | LogContent string

datatype request = Put string payload | PostDataItem string

record config =
  WORKING_DIRECTORY :: string
  DATA_DIRECTORY :: string
  DATA_SERVER :: string
  JOB_EXECUTABLE_PYNN_7 :: string
  JOB_EXECUTABLE_PYNN_8 :: string
  JOB_QUEUE :: "string option"
  DEFAULT_PYNN_BACKEND :: string

record hardware_client =
  job_server :: string
  platform :: string
  resource_map :: "(string \<times> string) list"

record job_runner =
  runner_config :: config
  client :: hardware_client

subsection \<open>The outside world\<close>

text \<open>
  What the program calls and does not define (the queue server behind
  \<open>nmpi.Client\<close>, the SAGA backend, the clock, the file system, child processes,
  \<open>urlparse\<close> and \<open>str.format\<close>) is a parameter \<open>env\<close>: every result below holds for
  every behaviour of these.  What the program changes outside itself is the
  \<open>world\<close>: how often it has read the clock, asked the queue and polled the
  backend, the requests it has sent, and the files and directories it has made.
\<close>

record env =
  urlparse :: "string \<Rightarrow> parsed_url"
  format_system :: "string \<Rightarrow> string \<Rightarrow> exn + string"
  datetime_now :: "nat \<Rightarrow> string"
  time_time :: "nat \<Rightarrow> timestamp"
  query_result :: "string \<Rightarrow> nat \<Rightarrow> exn + query_response"
  put_result :: "string \<Rightarrow> exn + string"
  create_data_item_result :: "string \<Rightarrow> exn + string"
  download_data_result :: "nmpi_job \<Rightarrow> string \<Rightarrow> exn option"
  backend_state :: "string \<Rightarrow> nat \<Rightarrow> saga_state"
  create_job_result :: "job_description \<Rightarrow> exn + string"
  run_result :: "string \<Rightarrow> exn option"
  tree :: "string \<Rightarrow> entry list option"
  exists_before :: "string \<Rightarrow> bool"
  makedirs_result :: "string \<Rightarrow> exn option"
  copyfile_result :: "string \<Rightarrow> string \<Rightarrow> exn option"
  write_result :: "string \<Rightarrow> exn option"
  subprocess_exit :: "string list \<Rightarrow> int"

record world =
  clock_reads :: nat
  queries :: nat
  polls :: nat
  requests :: "request list"
  files :: "string \<rightharpoonup> string"
  made_dirs :: "string list"
  copies :: "(string \<times> string) list"
  calls :: "string list list"

definition isoformat_now :: "env \<Rightarrow> world \<Rightarrow> string \<times> world" where
  "isoformat_now e w = (datetime_now e (clock_reads w), w\<lparr>clock_reads := Suc (clock_reads w)\<rparr>)"

definition time_now :: "env \<Rightarrow> world \<Rightarrow> timestamp \<times> world" where
  "time_now e w = (time_time e (clock_reads w), w\<lparr>clock_reads := Suc (clock_reads w)\<rparr>)"

definition get_state :: "env \<Rightarrow> saga_job \<Rightarrow> world \<Rightarrow> saga_state \<times> world" where
  "get_state e sj w = (backend_state e (sj_id sj) (polls w), w\<lparr>polls := Suc (polls w)\<rparr>)"

definition path_exists :: "env \<Rightarrow> string \<Rightarrow> world \<Rightarrow> bool" where
  "path_exists e p w = (exists_before e p \<or> p \<in> set (made_dirs w))"

definition makedirs :: "env \<Rightarrow> string \<Rightarrow> world \<Rightarrow> (exn + unit) \<times> world" where
  "makedirs e p w =
     (case makedirs_result e p of
        Some x \<Rightarrow> (Inl x, w)
      | None \<Rightarrow> (Inr (), w\<lparr>made_dirs := made_dirs w @ [p]\<rparr>))"

definition copyfile :: "env \<Rightarrow> string \<Rightarrow> string \<Rightarrow> world \<Rightarrow> (exn + unit) \<times> world" where
  "copyfile e src dst w =
     (case copyfile_result e src dst of
        Some x \<Rightarrow> (Inl x, w)
      | None \<Rightarrow> (Inr (), w\<lparr>copies := copies w @ [(src, dst)]\<rparr>))"

definition write_file :: "env \<Rightarrow> string \<Rightarrow> string \<Rightarrow> world \<Rightarrow> (exn + unit) \<times> world" where
  "write_file e p text w =
     (case write_result e p of
        Some x \<Rightarrow> (Inl x, w)
      | None \<Rightarrow> (Inr (), w\<lparr>files := (files w)(p \<mapsto> text)\<rparr>))"

definition subprocess_call :: "env \<Rightarrow> string list \<Rightarrow> world \<Rightarrow> int \<times> world" where
  "subprocess_call e argv w = (subprocess_exit e argv, w\<lparr>calls := calls w @ [argv]\<rparr>)"

text \<open>\<open>nmpi.Client._put\<close>: the request reaches the server unless the transport raises.\<close>

definition put :: "env \<Rightarrow> string \<Rightarrow> payload \<Rightarrow> world \<Rightarrow> (exn + string) \<times> world" where
  "put e url body w =
     (case put_result e url of
        Inl x \<Rightarrow> (Inl x, w)
      | Inr response \<Rightarrow> (Inr response, w\<lparr>requests := requests w @ [Put url body]\<rparr>))"

definition create_data_item :: "env \<Rightarrow> string \<Rightarrow> world \<Rightarrow> (exn + string) \<times> world" where
  "create_data_item e url w =
     (case create_data_item_result e url of
        Inl x \<Rightarrow> (Inl x, w)
      | Inr uri \<Rightarrow> (Inr uri, w\<lparr>requests := requests w @ [PostDataItem url]\<rparr>))"

text \<open>Python truth of an error message: \<open>None\<close> and \<open>""\<close> are false.\<close>

fun truthy :: "string option \<Rightarrow> bool" where
  "truthy None = False"
| "truthy (Some s) = (s \<noteq> [])"

section \<open>Status functions\<close>

definition read_output :: "saga_job \<Rightarrow> world \<Rightarrow> string \<times> string" where
  "read_output saga_job w =
     (let job_desc = description saga_job;
          outfile = join (working_directory job_desc) (desc_output job_desc);
          errfile = join (working_directory job_desc) (desc_error job_desc)
      in case files w outfile of
           None \<Rightarrow> ([], [])
         | Some stdout \<Rightarrow>
             (case files w errfile of
                None \<Rightarrow> ([], [])
              | Some stderr \<Rightarrow> (stdout, stderr)))"

text \<open>\<open>nmpi_job.pop("log", str())\<close>: the value of the key and the job without it.\<close>

definition pop_log :: "nmpi_job \<Rightarrow> string \<times> nmpi_job" where
  "pop_log j = ((case log j of None \<Rightarrow> [] | Some l \<Rightarrow> l), j\<lparr>log := None\<rparr>)"

definition job_pending :: "env \<Rightarrow> nmpi_job \<Rightarrow> saga_job \<Rightarrow> world \<Rightarrow> nmpi_job \<times> world" where
  "job_pending e nmpi_job saga_job w =
     (let j1 = nmpi_job\<lparr>status := ''submitted''\<rparr>;
          (log0, j2) = pop_log j1;
          log1 = log0 @ ''Job ID: '' @ sj_id saga_job @ newline;
          (now, w1) = isoformat_now e w;
          log2 = log1 @ now @ ''    pending'' @ newline
      in (j2\<lparr>log := Some log2\<rparr>, w1))"

definition job_running :: "env \<Rightarrow> nmpi_job \<Rightarrow> saga_job \<Rightarrow> world \<Rightarrow> nmpi_job \<times> world" where
  "job_running e nmpi_job saga_job w =
     (let j1 = nmpi_job\<lparr>status := ''running''\<rparr>;
          (log0, j2) = pop_log j1;
          (now, w1) = isoformat_now e w;
          log1 = log0 @ now @ ''    running'' @ newline
      in (j2\<lparr>log := Some log1\<rparr>, w1))"

definition job_done :: "env \<Rightarrow> nmpi_job \<Rightarrow> saga_job \<Rightarrow> world \<Rightarrow> nmpi_job \<times> world" where
  "job_done e nmpi_job saga_job w =
     (let j1 = nmpi_job\<lparr>status := ''finished''\<rparr>;
          (timestamp, w1) = isoformat_now e w;
          j2 = j1\<lparr>timestamp_completion := Some timestamp\<rparr>;
          j3 = j2\<lparr>resource_usage := Some 1\<rparr>;
          j4 = j3\<lparr>provenance := Some []\<rparr>;
          (log0, j5) = pop_log j4;
          (now, w2) = isoformat_now e w1;
          log1 = log0 @ now @ ''    finished'' @ newline;
          (stdout, stderr) = read_output saga_job w2;
          log2 = log1 @ newline @ newline;
          log3 = log2 @ truncate_string stdout MAX_LOG_SIZE;
          log4 = log3 @ newline @ newline;
          log5 = log4 @ truncate_string stderr MAX_LOG_SIZE
      in (j5\<lparr>log := Some log5\<rparr>, w2))"

definition job_failed :: "env \<Rightarrow> nmpi_job \<Rightarrow> saga_job \<Rightarrow> world \<Rightarrow> nmpi_job \<times> world" where
  "job_failed e nmpi_job saga_job w =
     (let j1 = nmpi_job\<lparr>status := ''error''\<rparr>;
          (log0, j2) = pop_log j1;
          (now, w1) = isoformat_now e w;
          log1 = log0 @ now @ ''    failed'' @ newline @ newline;
          (stdout, stderr) = read_output saga_job w1;
          log2 = log1 @ truncate_string stdout MAX_LOG_SIZE;
          log3 = log2 @ newline @ newline @ ''stdout'' @ newline @ ''------'' @ newline @ newline;
          log4 = log3 @ truncate_string stderr MAX_LOG_SIZE
      in (j2\<lparr>log := Some log4\<rparr>, w1))"

type_synonym status_function = "env \<Rightarrow> nmpi_job \<Rightarrow> saga_job \<Rightarrow> world \<Rightarrow> nmpi_job \<times> world"

definition default_job_states :: "saga_state \<rightharpoonup> status_function" where
  "default_job_states =
     [PENDING \<mapsto> job_pending, RUNNING \<mapsto> job_running, DONE \<mapsto> job_done, FAILED \<mapsto> job_failed]"

section \<open>HardwareClient\<close>

definition lookup_key :: "(string \<times> 'v) list \<Rightarrow> string \<Rightarrow> exn + 'v" where
  "lookup_key d k = (case map_of d k of None \<Rightarrow> Inl (KeyError k) | Some v \<Rightarrow> Inr v)"

text \<open>
  \<open>get_next_job\<close>: \<open>self._query\<close> of \<open>nmpi.Client\<close> is the \<open>query_result\<close> of the
  environment, by URL and by how many queries came before.
\<close>

definition get_next_job ::
  "env \<Rightarrow> hardware_client \<Rightarrow> world \<Rightarrow> (exn + nmpi_job option) \<times> world" where
  "get_next_job e c w =
     (case lookup_key (resource_map c) ''queue'' of
        Inl x \<Rightarrow> (Inl x, w)
      | Inr queue_endpoint \<Rightarrow>
          (let url = job_server c @ queue_endpoint @ ''/submitted/next/'' @ platform c @ ''/'';
               w1 = w\<lparr>queries := Suc (queries w)\<rparr>
           in case query_result e url (queries w) of
                Inl x \<Rightarrow> (Inl x, w1)
              | Inr (Warning m) \<Rightarrow> (Inr None, w1)
              | Inr (JobRecord job_nmpi) \<Rightarrow> (Inr (Some job_nmpi), w1)))"

definition log_url :: "hardware_client \<Rightarrow> nmpi_job \<Rightarrow> string" where
  "log_url c job = job_server c @ ''/api/v2/log/'' @ job_id job"

text \<open>
  The functions that mutate the job dictionary return it as their second
  component, whether they return or raise.
\<close>

definition update_job ::
  "env \<Rightarrow> hardware_client \<Rightarrow> nmpi_job \<Rightarrow> world \<Rightarrow> (exn + string) \<times> nmpi_job \<times> world" where
  "update_job e c job w =
     (let log0 = log job;
          job1 = job\<lparr>log := None\<rparr>
      in case put e (job_server c @ resource_uri job1) (JobFields job1) w of
           (Inl x, w1) \<Rightarrow> (Inl x, job1, w1)
         | (Inr response, w1) \<Rightarrow>
             if truthy log0
             then (case put e (log_url c job1) (LogContent (the log0)) w1 of
                     (Inl x, w2) \<Rightarrow> (Inl x, job1, w2)
                   | (Inr log_response, w2) \<Rightarrow> (Inr response, job1, w2))
             else (Inr response, job1, w1))"

definition operator_message :: string where
  "operator_message = ''Internal error. Please resubmit the job'' @ newline"

definition kill_job ::
  "env \<Rightarrow> hardware_client \<Rightarrow> nmpi_job \<Rightarrow> string \<Rightarrow> world
     \<Rightarrow> (exn + string) \<times> nmpi_job \<times> world" where
  "kill_job e c job error_message w =
     (if status job \<notin> set [''running'', ''submitted'']
      then (Inl (Exception (''You cannot kill a job with status '' @ status job)), job, w)
      else
        (let job1 = job\<lparr>status := ''error''\<rparr>;
             (log0, job2) = pop_log job1
         in case put e (job_server c @ resource_uri job2) (JobFields job2) w of
              (Inl x, w1) \<Rightarrow> (Inl x, job2, w1)
            | (Inr response, w1) \<Rightarrow>
                (let log1 = log0 @ operator_message;
                     log2 = log1 @ error_message
                 in case put e (log_url c job2) (LogContent log2) w1 of
                      (Inl x, w2) \<Rightarrow> (Inl x, job2, w2)
                    | (Inr log_response, w2) \<Rightarrow> (Inr response, job2, w2))))"

section \<open>Finding new data files\<close>

definition ignoredirs_default :: "string list" where
  "ignoredirs_default = [''.smt'', ''.hg'', ''.svn'', ''.git'', ''.bzr'']"

definition ignore_extensions_default :: "string list" where
  "ignore_extensions_default = [''.pyc'']"

fun dir_names :: "entry list \<Rightarrow> string list" where
  "dir_names [] = []"
| "dir_names (Dir d sub # es) = d # dir_names es"
| "dir_names (File f m # es) = dir_names es"

fun file_stats :: "entry list \<Rightarrow> (string \<times> timestamp) list" where
  "file_stats [] = []"
| "file_stats (File f m # es) = (f, m) # file_stats es"
| "file_stats (Dir d sub # es) = file_stats es"

text \<open>\<open>os.listdir\<close> of the subdirectory of that name.\<close>

fun subdir :: "entry list \<Rightarrow> string \<Rightarrow> entry list option" where
  "subdir [] d = None"
| "subdir (Dir d' sub # es) d = (if d' = d then Some sub else subdir es d)"
| "subdir (File f m # es) d = subdir es d"

text \<open>\<open>for igdir in ignoredirs: if igdir in dirs: dirs.remove(igdir)\<close>\<close>

definition prune_dirs :: "string list \<Rightarrow> string list \<Rightarrow> string list" where
  "prune_dirs ignoredirs dirs =
     fold (\<lambda>igdir ds. if igdir \<in> set ds then remove1 igdir ds else ds) ignoredirs dirs"

text \<open>
  The loop over \<open>os.walk(root)\<close>, top down: the files of a directory first, then
  the directories left in \<open>dirs\<close>, each under \<open>join(root, name)\<close>.
\<close>

function walk_new_files ::
  "nat \<Rightarrow> timestamp \<Rightarrow> string list \<Rightarrow> string list \<Rightarrow> string \<Rightarrow> entry list \<Rightarrow> string list" where
  "walk_new_files length_root timestamp ignoredirs ignore_extensions root entries =
     (let dirs = prune_dirs ignoredirs (dir_names entries);
          new_here =
            concat (map (\<lambda>(file, last_modified).
                      if splitext_ext file \<notin> set ignore_extensions
                      then (let relative_path = join (drop length_root root) file
                            in if last_modified \<ge> timestamp then [relative_path] else [])
                      else [])
                    (file_stats entries))
      in new_here @
         concat (map (\<lambda>d. case subdir entries d of
                             None \<Rightarrow> []
                           | Some sub \<Rightarrow>
                               walk_new_files length_root timestamp ignoredirs
                                 ignore_extensions (join root d) sub)
                     dirs))"
  by pat_completeness auto
termination
proof (relation "measure (\<lambda>(lr, ts, igd, ige, root, entries). size_list size entries)")
  show "wf (measure (\<lambda>(lr, ts, igd, ige, root, entries). size_list size entries))"
    by simp
next
  fix length_root :: nat and timestamp :: timestamp
    and ignoredirs ignore_extensions :: "string list"
    and root :: string and entries :: "entry list" and dirs d sub
  assume sub: "subdir entries d = Some sub"
  have "size_list size sub < size_list size es" if "subdir es d = Some sub" for es
    using that
  proof (induction es)
    case Nil
    then show ?case by simp
  next
    case (Cons a es)
    then show ?case by (cases a) (auto split: if_splits)
  qed
  with sub show "((length_root, timestamp, ignoredirs, ignore_extensions, join root d, sub),
                  (length_root, timestamp, ignoredirs, ignore_extensions, root, entries))
                 \<in> measure (\<lambda>(lr, ts, igd, ige, root, entries). size_list size entries)"
    by simp
qed

declare walk_new_files.simps [simp del]

text \<open>\<open>os.walk\<close> yields nothing for a directory it cannot list, the empty path among them.\<close>

definition os_listdir :: "env \<Rightarrow> string \<Rightarrow> entry list option" where
  "os_listdir e p = (if p = [] then None else tree e p)"

definition find_new_data_files ::
  "env \<Rightarrow> string \<Rightarrow> timestamp \<Rightarrow> string list \<Rightarrow> string list \<Rightarrow> string list" where
  "find_new_data_files e root timestamp ignoredirs ignore_extensions =
     (let length_root = length root + length ''/''
      in case os_listdir e root of
           None \<Rightarrow> []
         | Some entries \<Rightarrow>
             walk_new_files length_root timestamp ignoredirs ignore_extensions root entries)"

section \<open>JobRunner\<close>

subsection \<open>Output data\<close>

text \<open>The copying loop of \<open>_handle_output_data\<close>: the first failure returns its message.\<close>

fun copy_new_files ::
  "env \<Rightarrow> string \<Rightarrow> string \<Rightarrow> string list \<Rightarrow> world \<Rightarrow> string option \<times> world" where
  "copy_new_files e output_dir workdir [] w = (None, w)"
| "copy_new_files e output_dir workdir (new_file # rest) w =
     (let new_file_path = join output_dir new_file;
          (made, w1) = (if \<not> path_exists e (dirname new_file_path) w
                        then makedirs e (dirname new_file_path) w
                        else (Inr (), w))
      in case made of
           Inl x \<Rightarrow> (Some (''Failed to copy files : '' @ repr x), w1)
         | Inr u \<Rightarrow>
             (case copyfile e (join workdir new_file) new_file_path w1 of
                (Inl x, w2) \<Rightarrow> (Some (''Failed to copy files : '' @ repr x), w2)
              | (Inr u', w2) \<Rightarrow> copy_new_files e output_dir workdir rest w2))"

definition data_item_url :: "config \<Rightarrow> string \<Rightarrow> string \<Rightarrow> string" where
  "data_item_url cfg workdir new_file =
     DATA_SERVER cfg @ ''/'' @ basename workdir @ ''/'' @ new_file"

text \<open>
  The posting loop: each reference is appended to \<open>nmpi_job['output_data']\<close> as soon
  as the server returns it; the first failure returns its message.
\<close>

fun post_data_items ::
  "env \<Rightarrow> config \<Rightarrow> string \<Rightarrow> string list \<Rightarrow> nmpi_job \<Rightarrow> world
     \<Rightarrow> string option \<times> nmpi_job \<times> world" where
  "post_data_items e cfg workdir [] nmpi_job w = (None, nmpi_job, w)"
| "post_data_items e cfg workdir (new_file # rest) nmpi_job w =
     (let url = data_item_url cfg workdir new_file
      in case create_data_item e url w of
           (Inl x, w1) \<Rightarrow>
             (Some (''Failed to create data item remotely at '' @ url @ '': '' @ repr x),
              nmpi_job, w1)
         | (Inr uri, w1) \<Rightarrow>
             post_data_items e cfg workdir rest
               (nmpi_job\<lparr>output_data := output_data nmpi_job @ [uri]\<rparr>) w1)"

text \<open>The block under \<open>if DATA_DIRECTORY != WORKING_DIRECTORY\<close>, with its early returns.\<close>

definition copy_output_files ::
  "env \<Rightarrow> config \<Rightarrow> job_description \<Rightarrow> string list \<Rightarrow> world \<Rightarrow> string option \<times> world" where
  "copy_output_files e cfg job_desc new_files w =
     (let output_dir = join (DATA_DIRECTORY cfg) (basename (working_directory job_desc))
      in if DATA_DIRECTORY cfg \<noteq> WORKING_DIRECTORY cfg
         then (let (made, w1) = (if \<not> path_exists e (DATA_DIRECTORY cfg) w
                                 then makedirs e (DATA_DIRECTORY cfg) w
                                 else (Inr (), w))
               in case made of
                    Inl x \<Rightarrow> (Some (repr x), w1)
                  | Inr u \<Rightarrow>
                      copy_new_files e output_dir (working_directory job_desc) new_files w1)
         else (None, w))"

definition JobRunner_handle_output_data ::
  "env \<Rightarrow> job_runner \<Rightarrow> nmpi_job \<Rightarrow> saga_job \<Rightarrow> world \<Rightarrow> string option \<times> nmpi_job \<times> world" where
  "JobRunner_handle_output_data e self nmpi_job saga_job w =
     (let cfg = runner_config self;
          job_desc = description saga_job;
          new_files = find_new_data_files e (working_directory job_desc) (start_time saga_job)
                        ignoredirs_default ignore_extensions_default
      in case copy_output_files e cfg job_desc new_files w of
           (Some msg, w2) \<Rightarrow> (Some msg, nmpi_job, w2)
         | (None, w2) \<Rightarrow>
             (case post_data_items e cfg (working_directory job_desc) new_files nmpi_job w2 of
                (Some msg, job1, w3) \<Rightarrow> (Some msg, job1, w3)
              | (None, job1, w3) \<Rightarrow>
                  (case update_job e (client self) job1 w3 of
                     (Inl x, job2, w4) \<Rightarrow>
                       (Some (''Failed to update the job reflecting the produced output data: ''
                                @ repr x), job2, w4)
                   | (Inr response, job2, w4) \<Rightarrow> (None, job2, w4))))"

subsection \<open>Obtaining the code\<close>

text \<open>
  \<open>get_code\<close> is called with positional arguments, and Python does not check
  their types: an argument is a path or a job dictionary, and each use decides.
  Subscripting a string with \<open>'code'\<close> and using a dictionary as a path are
  \<open>TypeError\<close>s.  \<open>str(u)\<close> of a text with a character beyond ASCII is a
  \<open>UnicodeEncodeError\<close>.
\<close>

datatype pyval = PStr string | PJob nmpi_job

fun getitem_code :: "pyval \<Rightarrow> exn + string" where
  "getitem_code (PJob j) = Inr (code j)"
| "getitem_code (PStr s) = Inl (TypeError ''string indices must be integers, not str'')"

fun as_path :: "pyval \<Rightarrow> exn + string" where
  "as_path (PStr s) = Inr s"
| "as_path (PJob j) = Inl (TypeError ''coercing to Unicode: need string or buffer, dict found'')"

definition py_str :: "string \<Rightarrow> exn + string" where
  "py_str u =
     (if \<exists>c \<in> set u. (of_char c :: nat) \<ge> 128
      then Inl (UnicodeEncodeError ''ordinal not in range(128)'')
      else Inr u)"

definition create_working_directory :: "env \<Rightarrow> pyval \<Rightarrow> world \<Rightarrow> (exn + unit) \<times> world" where
  "create_working_directory e workdir w =
     (case as_path workdir of
        Inl x \<Rightarrow> (Inl x, w)
      | Inr p \<Rightarrow> if \<not> path_exists e p w then makedirs e p w else (Inr (), w))"

text \<open>The last part of \<open>get_code\<close>: the content of \<open>code\<close> is the code.\<close>

definition write_script ::
  "env \<Rightarrow> pyval \<Rightarrow> string \<Rightarrow> string \<Rightarrow> world \<Rightarrow> (exn + string option) \<times> world" where
  "write_script e working_dir script_name source w =
     (case create_working_directory e working_dir w of
        (Inl x, w1) \<Rightarrow> (Inr (Some (''Exception occured while writing script: '' @ repr x)), w1)
      | (Inr u, w1) \<Rightarrow>
          (case write_file e script_name source w1 of
             (Inl x, w2) \<Rightarrow>
               (Inr (Some (''Exception occured while writing script: '' @ repr x)), w2)
           | (Inr u', w2) \<Rightarrow> (Inr None, w2)))"

definition get_archive ::
  "env \<Rightarrow> pyval \<Rightarrow> string \<Rightarrow> parsed_url \<Rightarrow> world \<Rightarrow> (exn + string option) \<times> world" where
  "get_archive e working_dir url url_candidate w =
     (case create_working_directory e working_dir w of
        (Inl x, w1) \<Rightarrow> (Inl x, w1)
      | (Inr u, w1) \<Rightarrow>
          (case as_path working_dir of
             Inl x \<Rightarrow> (Inl x, w1)
           | Inr workdir \<Rightarrow>
               (let target = join workdir (basename (url_path url_candidate));
                    (err, w2) = subprocess_call e [''curl'', url, ''-o'', target] w1
                in if err \<noteq> 0
                   then (Inr (Some (''Unable to retrieve code from url: '' @ url)), w2)
                   else if endswith_any (url_path url_candidate) [''.tar.gz'', ''.tgz'']
                   then (let (err1, w3) =
                               subprocess_call e
                                 [''tar'', ''xfz'', target, ''--directory'', workdir] w2
                         in if err1 \<noteq> 0
                            then (Inr (Some ''Unable extract tar file, malformed archive?''), w3)
                            else (Inr None, w3))
                   else if endswith (url_path url_candidate) ''.zip''
                   then (let (err1, w3) =
                               subprocess_call e [''unzip'', ''-o'', target, ''-d'', workdir] w2
                         in if err1 \<noteq> 0
                            then (Inr (Some ''Unable expand zip file, malformed archive?''), w3)
                            else (Inr None, w3))
                   else (Inl (Exception ''AssertionError: unreachable''), w2))))"

definition get_code ::
  "env \<Rightarrow> pyval \<Rightarrow> pyval \<Rightarrow> string \<Rightarrow> world \<Rightarrow> (exn + string option) \<times> world" where
  "get_code e working_dir nmpi_job script_name w =
     (case getitem_code nmpi_job of
        Inl x \<Rightarrow> (Inl x, w)
      | Inr source \<Rightarrow>
          (case py_str source of
             Inl x \<Rightarrow> (Inl x, w)
           | Inr ascii \<Rightarrow>
               (let url_candidate = urlparse e ascii
                in if scheme url_candidate \<noteq> []
                      \<and> endswith_any (url_path url_candidate) [''.tar.gz'', ''.zip'', ''.tgz'']
                   then get_archive e working_dir source url_candidate w
                   else if scheme url_candidate \<in> set [''http'', ''https'', ''ssh'']
                   then (case as_path working_dir of
                           Inl x \<Rightarrow> (Inl x, w)
                         | Inr workdir \<Rightarrow>
                             (let (err, w1) =
                                    subprocess_call e
                                      [''git'', ''clone'', ''--recursive'', source, workdir] w
                              in if err = 0 then (Inr None, w1)
                                 else write_script e working_dir script_name source w1))
                   else write_script e working_dir script_name source w)))"

definition get_input_data ::
  "env \<Rightarrow> nmpi_job \<Rightarrow> string \<Rightarrow> string option" where
  "get_input_data e nmpi_job working_dir =
     (case input_data nmpi_job of
        None \<Rightarrow> None
      | Some items \<Rightarrow>
          if items \<noteq> []
          then (case download_data_result e nmpi_job working_dir of
                  Some x \<Rightarrow> Some (''Exception occurred while downloading input data: '' @ repr x)
                | None \<Rightarrow> None)
          else None)"

subsection \<open>Submission\<close>

definition DEFAULT_SCRIPT_NAME :: string where
  "DEFAULT_SCRIPT_NAME = ''run.py {system}''"

definition DEFAULT_PYNN_VERSION :: string where
  "DEFAULT_PYNN_VERSION = ''0.7''"

definition build_job_description :: "env \<Rightarrow> job_runner \<Rightarrow> nmpi_job \<Rightarrow> exn + job_description" where
  "build_job_description e self nmpi_job =
     (let cfg = runner_config self;
          workdir = join (WORKING_DIRECTORY cfg) (''job_'' @ job_id nmpi_job);
          pyNN_version =
            (case hardware_config nmpi_job of
               None \<Rightarrow> DEFAULT_PYNN_VERSION
             | Some hc \<Rightarrow>
                 (case map_of hc ''pyNN_version'' of
                    None \<Rightarrow> DEFAULT_PYNN_VERSION
                  | Some v \<Rightarrow> v))
      in if pyNN_version \<noteq> ''0.7'' \<and> pyNN_version \<noteq> ''0.8''
         then Inl (ValueError (''Supported PyNN versions: 0.7, 0.8. '' @ pyNN_version
                                 @ '' not supported''))
         else
           (let exe = (if pyNN_version = ''0.7'' then JOB_EXECUTABLE_PYNN_7 cfg
                       else JOB_EXECUTABLE_PYNN_8 cfg);
                script_name = (case command nmpi_job of None \<Rightarrow> [] | Some c \<Rightarrow> c);
                script_name1 = (if script_name = [] then DEFAULT_SCRIPT_NAME else script_name)
            in case format_system e script_name1 (DEFAULT_PYNN_BACKEND cfg) of
                 Inl x \<Rightarrow> Inl x
               | Inr command_line \<Rightarrow>
                   Inr \<lparr>working_directory = workdir,
                        executable = exe,
                        queue = JOB_QUEUE cfg,
                        arguments = split_on CHR '' '' (join workdir command_line),
                        desc_output = ''saga_'' @ job_id nmpi_job @ ''.out'',
                        desc_error = ''saga_'' @ job_id nmpi_job @ ''.err''\<rparr>))"

text \<open>
  \<open>run\<close> returns the pair \<open>(saga_job, message)\<close>.  Its call
  \<open>get_code(nmpi_job, job_desc.working_directory, script_name=...)\<close> is positional:
  the first argument is bound to \<open>working_directory\<close>, the second to \<open>nmpi_job\<close>.
\<close>

definition run ::
  "env \<Rightarrow> job_runner \<Rightarrow> nmpi_job \<Rightarrow> world \<Rightarrow> (exn + saga_job option \<times> string) \<times> world" where
  "run e self nmpi_job w =
     (case build_job_description e self nmpi_job of
        Inl x \<Rightarrow> (Inr (None, ''Failed to build job description with error: '' @ repr x), w)
      | Inr job_desc \<Rightarrow>
          (case arguments job_desc of
             [] \<Rightarrow> (Inl (IndexError ''list index out of range''), w)
           | script_name # others \<Rightarrow>
               (case get_code e (PJob nmpi_job) (PStr (working_directory job_desc))
                       script_name w of
                  (Inl x, w1) \<Rightarrow> (Inl x, w1)
                | (Inr err, w1) \<Rightarrow>
                    if truthy err
                    then (Inr (None, ''Failed to obtain source code: '' @ the err), w1)
                    else if truthy (get_input_data e nmpi_job (working_directory job_desc))
                    then (Inr (None, ''Failed to download input data.''), w1)
                    else
                      (case create_job_result e job_desc of
                         Inl x \<Rightarrow>
                           (Inr (None, ''Failed to create job on cluster with exception: ''
                                         @ repr x), w1)
                       | Inr sid \<Rightarrow>
                           (let (t, w2) = time_now e w1;
                                saga_job = \<lparr>sj_id = sid, start_time = t,
                                            description = job_desc\<rparr>
                            in case run_result e sid of
                                 Some x \<Rightarrow>
                                   (Inr (None, ''Failed to run saga job with exception: ''
                                                 @ repr x), w2)
                               | None \<Rightarrow> (Inr (Some saga_job, []), w2))))))"

definition update_status ::
  "env \<Rightarrow> job_runner \<Rightarrow> nmpi_job \<Rightarrow> saga_job \<Rightarrow> (saga_state \<rightharpoonup> status_function) \<Rightarrow> world
     \<Rightarrow> (exn + nmpi_job) \<times> nmpi_job \<times> world" where
  "update_status e self nmpi_job saga_job job_states w =
     (let (saga_state, w1) = get_state e saga_job w
      in case job_states saga_state of
           None \<Rightarrow> (Inl (KeyError (state_name saga_state)), nmpi_job, w1)
         | Some set_status \<Rightarrow>
             (let (job1, w2) = set_status e nmpi_job saga_job w1
              in case update_job e (client self) job1 w2 of
                   (Inl x, job2, w3) \<Rightarrow> (Inl x, job2, w3)
                 | (Inr response, job2, w3) \<Rightarrow> (Inr job2, job2, w3)))"

text \<open>The loop of \<open>submit_jobs\<close>, with \<open>saga_jobs\<close> as its accumulator.\<close>

fun submit_loop ::
  "env \<Rightarrow> job_runner \<Rightarrow> nmpi_job list \<Rightarrow> (nmpi_job \<times> saga_job) list \<Rightarrow> world
     \<Rightarrow> (exn + (nmpi_job \<times> saga_job) list) \<times> world" where
  "submit_loop e self [] saga_jobs w = (Inr saga_jobs, w)"
| "submit_loop e self (nmpi_job # rest) saga_jobs w =
     (case run e self nmpi_job w of
        (Inl x, w1) \<Rightarrow> (Inl x, w1)
      | (Inr (handle, err), w1) \<Rightarrow>
          if err \<noteq> []
          then (case kill_job e (client self) nmpi_job err w1 of
                  (Inl x, job1, w2) \<Rightarrow> (Inl x, w2)
                | (Inr response, job1, w2) \<Rightarrow> submit_loop e self rest saga_jobs w2)
          else
            (case handle of
               None \<Rightarrow> (Inl (AttributeError ''get_state''), w1)
             | Some saga_job \<Rightarrow>
                 (case update_status e self nmpi_job saga_job default_job_states w1 of
                    (Inl x, job1, w2) \<Rightarrow> (Inl x, w2)
                  | (Inr job2, job1, w2) \<Rightarrow>
                      submit_loop e self rest (saga_jobs @ [(job1, saga_job)]) w2)))"

definition submit_jobs ::
  "env \<Rightarrow> job_runner \<Rightarrow> nmpi_job list \<Rightarrow> world
     \<Rightarrow> (exn + (nmpi_job \<times> saga_job) list) \<times> world" where
  "submit_jobs e self pending_jobs w = submit_loop e self pending_jobs [] w"

subsection \<open>Retrieval\<close>

text \<open>
  \<open>while True\<close> around \<open>get_next_job\<close>.  The loop may run forever, so its model
  returns an option: \<open>None\<close> is a run that never leaves the loop.
\<close>

partial_function (option) retrieve_loop ::
  "env \<Rightarrow> job_runner \<Rightarrow> nmpi_job list \<Rightarrow> world \<Rightarrow> ((exn + nmpi_job list) \<times> world) option" where
  "retrieve_loop e self pending_jobs w =
     (case get_next_job e (client self) w of
        (Inl x, w1) \<Rightarrow> Some (Inl x, w1)
      | (Inr nmpi_job, w1) \<Rightarrow>
          if nmpi_job = None \<or> the nmpi_job \<in> set pending_jobs
          then Some (Inr pending_jobs, w1)
          else retrieve_loop e self pending_jobs w1)"

definition retrieve_pending_jobs ::
  "env \<Rightarrow> job_runner \<Rightarrow> world \<Rightarrow> ((exn + nmpi_job list) \<times> world) option" where
  "retrieve_pending_jobs e self w = retrieve_loop e self [] w"

subsection \<open>Waiting\<close>

text \<open>
  \<open>pending_jobs is []\<close> compares the identity of the list with that of a list
  made for the comparison: it is false for every list.
\<close>

definition is_new_empty_list :: "'a list \<Rightarrow> bool" where
  "is_new_empty_list xs = False"

text \<open>
  \<open>saga_job.job.CANCELED\<close>: the constant lives in the module \<open>saga.job\<close>; a job
  handle has no attribute \<open>job\<close>.
\<close>

definition saga_job_job_CANCELED :: "saga_job \<Rightarrow> exn + saga_state" where
  "saga_job_job_CANCELED saga_job = Inl (AttributeError ''job'')"

text \<open>
  The end of the loop body: \<open>pending_jobs.remove((nmpi_job, saga_job))\<close>, then
  \<open>self._update_status(...)\<close>.
\<close>

definition remove_and_update ::
  "env \<Rightarrow> job_runner \<Rightarrow> nmpi_job \<Rightarrow> saga_job \<Rightarrow> (nmpi_job \<times> saga_job) list \<Rightarrow> world
     \<Rightarrow> (exn + unit) \<times> (nmpi_job \<times> saga_job) list \<times> world" where
  "remove_and_update e self nmpi_job saga_job pending_jobs w =
     (let pending1 = remove1 (nmpi_job, saga_job) pending_jobs
      in case update_status e self nmpi_job saga_job default_job_states w of
           (Inl x, job1, w1) \<Rightarrow> (Inl x, pending1, w1)
         | (Inr job2, job1, w1) \<Rightarrow> (Inr (), pending1, w1))"

text \<open>
  The body of \<open>for nmpi_job, saga_job in pending_jobs\<close> at position \<open>i\<close> of the
  list.  The job dictionary is mutated in place, so the list shows its new
  content at \<open>i\<close> before the pair is removed.
\<close>

definition wait_body ::
  "env \<Rightarrow> job_runner \<Rightarrow> nat \<Rightarrow> (nmpi_job \<times> saga_job) list \<Rightarrow> world
     \<Rightarrow> (exn + unit) \<times> (nmpi_job \<times> saga_job) list \<times> world" where
  "wait_body e self i pending_jobs w =
     (let (nmpi_job, saga_job) = pending_jobs ! i;
          (state, w1) = get_state e saga_job w
      in if state = DONE
         then (let (err, job1, w2) = JobRunner_handle_output_data e self nmpi_job saga_job w1;
                   pending1 = pending_jobs[i := (job1, saga_job)]
               in if truthy err
                  then (case kill_job e (client self) job1 (the err) w2 of
                          (Inl x, job2, w3) \<Rightarrow> (Inl x, pending1[i := (job2, saga_job)], w3)
                        | (Inr response, job2, w3) \<Rightarrow>
                            (Inr (), remove1 (job2, saga_job) (pending1[i := (job2, saga_job)]),
                             w3))
                  else remove_and_update e self job1 saga_job pending1 w2)
         else if state = FAILED
         then remove_and_update e self nmpi_job saga_job pending_jobs w1
         else (case saga_job_job_CANCELED saga_job of
                 Inl x \<Rightarrow> (Inl x, pending_jobs, w1)
               | Inr canceled \<Rightarrow>
                   if state = canceled
                   then remove_and_update e self nmpi_job saga_job pending_jobs w1
                   else (Inr (), pending_jobs, w1)))"

text \<open>
  \<open>for nmpi_job, saga_job in pending_jobs\<close>: the list iterator holds a position,
  reads the list as it is now, and stops when the position is past its end;
  removing the current pair moves the later pairs one place down, so the pair
  after a removed one is not visited in this round.
\<close>

function for_pending_jobs ::
  "env \<Rightarrow> job_runner \<Rightarrow> nat \<Rightarrow> (nmpi_job \<times> saga_job) list \<Rightarrow> world
     \<Rightarrow> (exn + unit) \<times> (nmpi_job \<times> saga_job) list \<times> world" where
  "for_pending_jobs e self i pending_jobs w =
     (if i < length pending_jobs
      then (case wait_body e self i pending_jobs w of
              (Inl x, pending1, w1) \<Rightarrow> (Inl x, pending1, w1)
            | (Inr u, pending1, w1) \<Rightarrow> for_pending_jobs e self (Suc i) pending1 w1)
      else (Inr (), pending_jobs, w))"
  by pat_completeness auto
termination
proof (relation "measure (\<lambda>(e, self, i, ps, w). length ps - i)")
  show "wf (measure (\<lambda>(e, self, i, ps, w). length ps - i))"
    by simp
next
  fix e self i and pending_jobs :: "(nmpi_job \<times> saga_job) list" and w x y xa ya
  assume lt: "i < length pending_jobs"
    and body: "(x, y) = wait_body e self i pending_jobs w" "(xa, ya) = y"
  have rau: "length (fst (snd (remove_and_update e self j sj qs w'))) \<le> length qs"
    for j sj qs w'
    by (simp add: remove_and_update_def Let_def length_remove1 split: prod.splits sum.splits)
  have upd: "length (fst (snd (remove_and_update e self j sj (pending_jobs[i := p]) w')))
               \<le> length pending_jobs" for j sj p w'
    using rau [of j sj "pending_jobs[i := p]" w'] by simp
  have rem: "length (remove1 q (pending_jobs[i := p])) \<le> length pending_jobs" for p q
    by (simp add: length_remove1)
  have "length (fst (snd (wait_body e self i pending_jobs w))) \<le> length pending_jobs"
    unfolding wait_body_def Let_def
    by (simp add: upd rem rau saga_job_job_CANCELED_def split: prod.splits sum.splits)
  then have "length xa \<le> length pending_jobs"
    using body [symmetric] by simp
  with lt show "((e, self, Suc i, xa, ya), (e, self, i, pending_jobs, w))
                 \<in> measure (\<lambda>(e, self, i, ps, w). length ps - i)"
    by simp
qed

text \<open>
  \<open>wait_on_completion\<close>: \<open>while True\<close> around the test and the \<open>for\<close> loop.  \<open>None\<close>
  is a run that never leaves the loop.  The list is mutated in place: the
  caller sees the list this function leaves.
\<close>

partial_function (option) wait_on_completion ::
  "env \<Rightarrow> job_runner \<Rightarrow> (nmpi_job \<times> saga_job) list \<Rightarrow> world
     \<Rightarrow> ((exn + unit) \<times> (nmpi_job \<times> saga_job) list \<times> world) option" where
  "wait_on_completion e self pending_jobs w =
     (if is_new_empty_list pending_jobs then Some (Inr (), pending_jobs, w)
      else (case for_pending_jobs e self 0 pending_jobs w of
              (Inl x, pending1, w1) \<Rightarrow> Some (Inl x, pending1, w1)
            | (Inr u, pending1, w1) \<Rightarrow> wait_on_completion e self pending1 w1))"

subsection \<open>One cycle\<close>

text \<open>
  \<open>JobRunner.next\<close>.  It returns \<open>pending_saga_jobs\<close>, the list object it passed to
  \<open>wait_on_completion\<close>, as that call left it.
\<close>

definition runner_next ::
  "env \<Rightarrow> job_runner \<Rightarrow> world \<Rightarrow> ((exn + (nmpi_job \<times> saga_job) list) \<times> world) option" where
  "runner_next e self w =
     (case retrieve_pending_jobs e self w of
        None \<Rightarrow> None
      | Some (Inl x, w1) \<Rightarrow> Some (Inl x, w1)
      | Some (Inr pending_nmpi_jobs, w1) \<Rightarrow>
          (case submit_jobs e self pending_nmpi_jobs w1 of
             (Inl x, w2) \<Rightarrow> Some (Inl x, w2)
           | (Inr pending_saga_jobs, w2) \<Rightarrow>
               (case wait_on_completion e self pending_saga_jobs w2 of
                  None \<Rightarrow> None
                | Some (Inl x, left, w3) \<Rightarrow> Some (Inl x, w3)
                | Some (Inr u, left, w3) \<Rightarrow> Some (Inr left, w3))))"

section \<open>The specification's notions\<close>

text \<open>
  The specification's words for a maximum size \<open>M\<close>: a longer string becomes its
  first \<open>M/2\<close> characters, the marker, and its last \<open>M/2\<close> characters.
\<close>

definition truncate_string_spec :: "string \<Rightarrow> nat \<Rightarrow> string" where
  "truncate_string_spec s M =
     (if M < length s
      then take (M div 2) s @ truncation_marker @ drop (length s - M div 2) s
      else s)"

text \<open>
  The text a status function appends to the log for a backend state, as a
  function of the time stamp it prints; and the queue status it sets.
\<close>

definition log_or_empty :: "nmpi_job \<Rightarrow> string" where
  "log_or_empty j = (case log j of None \<Rightarrow> [] | Some l \<Rightarrow> l)"

fun log_entry :: "saga_state \<Rightarrow> saga_job \<Rightarrow> world \<Rightarrow> string \<Rightarrow> string" where
  "log_entry PENDING sj w t = ''Job ID: '' @ sj_id sj @ newline @ t @ ''    pending'' @ newline"
| "log_entry RUNNING sj w t = t @ ''    running'' @ newline"
| "log_entry DONE sj w t =
     t @ ''    finished'' @ newline @ newline @ newline
       @ truncate_string (fst (read_output sj w)) MAX_LOG_SIZE @ newline @ newline
       @ truncate_string (snd (read_output sj w)) MAX_LOG_SIZE"
| "log_entry FAILED sj w t =
     t @ ''    failed'' @ newline @ newline
       @ truncate_string (fst (read_output sj w)) MAX_LOG_SIZE
       @ newline @ newline @ ''stdout'' @ newline @ ''------'' @ newline @ newline
       @ truncate_string (snd (read_output sj w)) MAX_LOG_SIZE"
| "log_entry st sj w t = []"


text \<open>
  The specification's words: the relative paths of the files under the
  directory whose last-modified time is at or after the time stamp, that lie
  outside the ignored directories and do not have an ignored extension.  A
  file system gives the entries of a directory distinct names, none empty and
  none with a separator in it: that is \<open>well_formed\<close>.
\<close>

inductive harvestable ::
  "timestamp \<Rightarrow> string list \<Rightarrow> string list \<Rightarrow> entry list \<Rightarrow> string \<Rightarrow> bool"
  for ts :: timestamp and igd :: "string list" and ige :: "string list" where
    here: "File f m \<in> set entries \<Longrightarrow> ts \<le> m \<Longrightarrow> splitext_ext f \<notin> set ige
             \<Longrightarrow> harvestable ts igd ige entries f"
  | below: "Dir d sub \<in> set entries \<Longrightarrow> d \<notin> set igd \<Longrightarrow> harvestable ts igd ige sub p
             \<Longrightarrow> harvestable ts igd ige entries (d @ ''/'' @ p)"

definition valid_name :: "string \<Rightarrow> bool" where
  "valid_name n = (n \<noteq> [] \<and> CHR ''/'' \<notin> set n)"

fun entry_names :: "entry list \<Rightarrow> string list" where
  "entry_names [] = []"
| "entry_names (File f m # es) = f # entry_names es"
| "entry_names (Dir d sub # es) = d # entry_names es"

fun well_formed :: "entry list \<Rightarrow> bool" where
  "well_formed [] = True"
| "well_formed (File f m # es) =
     (valid_name f \<and> f \<notin> set (entry_names es) \<and> well_formed es)"
| "well_formed (Dir d sub # es) =
     (valid_name d \<and> d \<notin> set (entry_names es) \<and> well_formed sub \<and> well_formed es)"


section \<open>Example inputs\<close>

text \<open>
  A job whose code is the text \<open>print('hi')\<close>, a runner, a world in which nothing
  has happened yet, and an environment in which every outside call succeeds:
  the queue is empty, \<open>urlparse\<close> finds no scheme (as for a text without a colon)
  and \<open>str.format\<close> fills the default script name.
\<close>

definition example_job :: nmpi_job where
  "example_job =
     \<lparr>job_id = ''42'', status = ''submitted'', log = None,
      code = ''print('' @ [CHR 0x27] @ ''hi'' @ [CHR 0x27] @ '')'',
      command = None, hardware_config = None, input_data = None, output_data = [],
      resource_uri = ''/api/v2/queue/42'', timestamp_completion = None,
      resource_usage = None, provenance = None\<rparr>"

definition example_runner :: job_runner where
  "example_runner =
     \<lparr>runner_config =
        \<lparr>WORKING_DIRECTORY = ''/work'', DATA_DIRECTORY = ''/data'',
         DATA_SERVER = ''http://data'', JOB_EXECUTABLE_PYNN_7 = ''/usr/bin/python'',
         JOB_EXECUTABLE_PYNN_8 = ''/usr/bin/python'', JOB_QUEUE = None,
         DEFAULT_PYNN_BACKEND = ''nest''\<rparr>,
      client =
        \<lparr>job_server = ''https://nmpi'', platform = ''hw'',
         resource_map = [(''queue'', ''/api/v2/queue'')]\<rparr>\<rparr>"

definition example_handle :: saga_job where
  "example_handle =
     \<lparr>sj_id = ''saga-1'', start_time = 1000,
      description = \<lparr>working_directory = ''/work/job_42'', executable = ''/usr/bin/python'',
                     queue = None, arguments = [''/work/job_42/run.py'', ''nest''],
                     desc_output = ''saga_42.out'', desc_error = ''saga_42.err''\<rparr>\<rparr>"

definition world0 :: world where
  "world0 = \<lparr>clock_reads = 0, queries = 0, polls = 0, requests = [], files = Map.empty,
             made_dirs = [], copies = [], calls = []\<rparr>"

definition quiet_env :: env where
  "quiet_env =
     \<lparr>urlparse = (\<lambda>s. \<lparr>scheme = [], url_path = s\<rparr>),
      format_system = (\<lambda>template system.
         if template = DEFAULT_SCRIPT_NAME then Inr (''run.py '' @ system) else Inr template),
      datetime_now = (\<lambda>k. if k = 0 then ''2016-01-01T00:00:00''
                           else if k = 1 then ''2016-01-01T00:00:01''
                           else ''2016-01-01T00:00:02''),
      time_time = (\<lambda>k. 1000 + int k),
      query_result = (\<lambda>url k. Inr (Warning ''No queued job'')),
      put_result = (\<lambda>url. Inr ''ok''),
      create_data_item_result = (\<lambda>url. Inr (''/api/v2/dataitem/'' @ url)),
      download_data_result = (\<lambda>job workdir. None),
      backend_state = (\<lambda>sid k. DONE),
      create_job_result = (\<lambda>job_desc. Inr ''saga-1''),
      run_result = (\<lambda>sid. None),
      tree = (\<lambda>root. None),
      exists_before = (\<lambda>p. False),
      makedirs_result = (\<lambda>p. None),
      copyfile_result = (\<lambda>src dst. None),
      write_result = (\<lambda>p. None),
      subprocess_exit = (\<lambda>argv. 0)\<rparr>"

definition one_job_queue :: "string \<Rightarrow> nat \<Rightarrow> exn + query_response" where
  "one_job_queue url k =
     (if k = 0 then Inr (JobRecord example_job) else Inr (Warning ''No queued job''))"

text \<open>A working directory with two new files; the server refuses the second.\<close>

definition two_files_env :: env where
  "two_files_env =
     quiet_env\<lparr>tree := (\<lambda>root. if root = ''/work/job_42''
                               then Some [File ''a.dat'' 2000, File ''b.dat'' 2000] else None),
               create_data_item_result :=
                 (\<lambda>url. if url = ''http://data/job_42/b.dat''
                        then Inl (IOError ''connection refused'')
                        else Inr ''/api/v2/dataitem/1'')\<rparr>"




section \<open>Log truncation: results\<close>

lemma even_half_up:
  "even (M::int) \<longrightarrow> nat ((M + 1) div 2) = nat (M div 2)"
proof
  assume "even M"
  then have "(M + 1) div 2 = M div 2" by (elim evenE) simp
  then show "nat ((M + 1) div 2) = nat (M div 2)" by simp
qed

lemma truncate_string_short:
  "int (length s) \<le> M \<Longrightarrow> truncate_string s M = s"
  by (simp add: truncate_string_def)

lemma truncate_string_long:
  assumes "0 < M" and "M < int (length s)"
  shows "truncate_string s M =
           take (nat (M div 2)) s @ truncation_marker
             @ drop (length s - nat ((M + 1) div 2)) s"
proof -
  have neg: "(- M) div 2 < 0" using assms(1) by linarith
  have eq: "- ((- M) div 2) = (M + 1) div 2" by linarith
  have "slice_from s ((- M) div 2) = drop (length s - nat ((M + 1) div 2)) s"
    using neg eq by (simp add: slice_from_def)
  moreover have "slice_to s (M div 2) = take (nat (M div 2)) s"
    using assms(1) by (simp add: slice_to_def)
  ultimately show ?thesis using assms(2) by (simp add: truncate_string_def)
qed

lemma length_truncate_string_long:
  assumes "0 < M" and "M < int (length s)"
  shows "int (length (truncate_string s M)) = M + int (length truncation_marker)"
proof -
  have a: "nat (M div 2) \<le> length s" using assms by linarith
  have b: "nat ((M + 1) div 2) \<le> length s" using assms by linarith
  have c: "int (nat (M div 2)) + int (nat ((M + 1) div 2)) = M" using assms(1) by linarith
  have "length (truncate_string s M) =
          nat (M div 2) + length truncation_marker + nat ((M + 1) div 2)"
    using a b by (simp add: truncate_string_long [OF assms] min_absorb2)
  then show ?thesis using c by linarith
qed

text \<open>
  C5 as stated fails: with the odd maximum 3 the tail kept has two characters,
  not one, and with the maximum 0 the whole string is kept after the marker,
  so the result is longer than the maximum plus the marker.
\<close>

theorem truncate_string_counterexample:
  "truncate_string ''abcd'' 3 = ''a'' @ truncation_marker @ ''cd''
   \<and> truncate_string_spec ''abcd'' 3 = ''a'' @ truncation_marker @ ''d''
   \<and> truncate_string ''abcd'' 3 \<noteq> truncate_string_spec ''abcd'' 3
   \<and> truncate_string ''a'' 0 = truncation_marker @ ''a''
   \<and> int (length (truncate_string ''a'' 0)) > 0 + int (length truncation_marker)"
  by (simp add: truncate_string_def truncate_string_spec_def slice_to_def slice_from_def
        truncation_marker_def)

text \<open>
  C5, amended.  For a maximum size \<open>M\<close> of at least 1: a string longer than \<open>M\<close>
  becomes its first \<open>M div 2\<close> characters, the marker, and its last
  \<open>(M + 1) div 2\<close> characters (the same number when \<open>M\<close> is even, as it is for
  \<open>MAX_LOG_SIZE\<close>); any other string is returned unchanged; and the result is never
  longer than \<open>M\<close> plus the marker.
\<close>

theorem truncate_string_amended:
  assumes "0 < M"
  shows "truncate_string s M =
           (if M < int (length s)
            then take (nat (M div 2)) s @ truncation_marker
                   @ drop (length s - nat ((M + 1) div 2)) s
            else s)
         \<and> (even M \<longrightarrow> nat ((M + 1) div 2) = nat (M div 2))
         \<and> int (length (truncate_string s M)) \<le> M + int (length truncation_marker)"
proof (cases "M < int (length s)")
  case True
  show ?thesis
    using True even_half_up [of M] truncate_string_long [OF assms True] length_truncate_string_long [OF assms True]
    by simp
next
  case False
  have "truncate_string s M = s" using False by (simp add: truncate_string_short)
  then show ?thesis using False even_half_up [of M] by simp
qed

theorem truncate_string_amended_witness:
  "(0::int) < 4
   \<and> truncate_string ''abcdefg'' 4 = ''ab'' @ truncation_marker @ ''fg''
   \<and> int (length (truncate_string ''abcdefg'' 4)) \<le> 4 + int (length truncation_marker)
   \<and> truncate_string ''abc'' 4 = ''abc''"
  using truncate_string_amended [of 4 "''abcdefg''"] truncate_string_amended [of 4 "''abc''"]
  by simp

section \<open>Retrieval: results\<close>

text \<open>The loop never changes \<open>pending_jobs\<close>: what it returns is the list it started with.\<close>

lemma retrieve_loop_keeps_list:
  assumes "retrieve_loop e self ps w = Some r"
  shows "\<forall>qs. fst r = Inr qs \<longrightarrow> qs = ps"
proof (rule retrieve_loop.raw_induct
    [where P = "\<lambda>e self ps w r. \<forall>qs. fst r = Inr qs \<longrightarrow> qs = ps", OF _ assms])
  fix f :: "env \<Rightarrow> job_runner \<Rightarrow> nmpi_job list \<Rightarrow> world \<Rightarrow> ((exn + nmpi_job list) \<times> world) option"
  fix e self ps w r
  assume IH: "\<And>e self ps w r. f e self ps w = Some r \<Longrightarrow> \<forall>qs. fst r = Inr qs \<longrightarrow> qs = ps"
    and step: "(case get_next_job e (client self) w of
                  (Inl x, w1) \<Rightarrow> Some (Inl x, w1)
                | (Inr nmpi_job, w1) \<Rightarrow>
                    if nmpi_job = None \<or> the nmpi_job \<in> set ps
                    then Some (Inr ps, w1)
                    else f e self ps w1) = Some r"
  show "\<forall>qs. fst r = Inr qs \<longrightarrow> qs = ps"
  proof (cases "get_next_job e (client self) w")
    case (Pair res w1)
    show ?thesis
    proof (cases res)
      case (Inl x)
      with Pair step show ?thesis by auto
    next
      case (Inr nmpi_job)
      show ?thesis
      proof (cases "nmpi_job = None \<or> the nmpi_job \<in> set ps")
        case True
        with Pair Inr step show ?thesis by auto
      next
        case False
        with Pair Inr step have "f e self ps w1 = Some r" by auto
        from IH [OF this] show ?thesis .
      qed
    qed
  qed
qed

lemma retrieve_pending_jobs_empty:
  assumes "retrieve_pending_jobs e self w = Some (Inr jobs, w')"
  shows "jobs = []"
  using retrieve_loop_keeps_list [OF assms [unfolded retrieve_pending_jobs_def]] by simp

lemma retrieve_one_job_queue:
  "retrieve_pending_jobs (quiet_env\<lparr>query_result := one_job_queue\<rparr>) example_runner world0
     = Some (Inr [], world0\<lparr>queries := 2\<rparr>)"
  unfolding retrieve_pending_jobs_def
  apply (subst retrieve_loop.simps)
  apply (simp add: get_next_job_def lookup_key_def example_runner_def quiet_env_def
      one_job_queue_def world0_def)
  apply (subst retrieve_loop.simps)
  apply (simp add: get_next_job_def lookup_key_def example_runner_def quiet_env_def
      one_job_queue_def world0_def)
  done

text \<open>
  C1 (the code departs from the claim).  The queue yields \<open>example_job\<close> and then
  no job: \<open>retrieve_pending_jobs\<close> asks twice and returns the empty list, where the
  claim has a collection that contains the job.  Whatever the queue does, the
  list returned holds no job.
\<close>

theorem retrieve_pending_jobs_drops_job:
  "retrieve_pending_jobs (quiet_env\<lparr>query_result := one_job_queue\<rparr>) example_runner world0
     = Some (Inr [], world0\<lparr>queries := 2\<rparr>)
   \<and> (\<forall>e self w job jobs w'.
         retrieve_pending_jobs e self w \<noteq> Some (Inr (job # jobs), w'))"
proof
  show "retrieve_pending_jobs (quiet_env\<lparr>query_result := one_job_queue\<rparr>) example_runner
          world0 = Some (Inr [], world0\<lparr>queries := 2\<rparr>)"
    by (rule retrieve_one_job_queue)
  show "\<forall>e self w job jobs w'. retrieve_pending_jobs e self w \<noteq> Some (Inr (job # jobs), w')"
  proof (intro allI notI)
    fix e self w job jobs w'
    assume "retrieve_pending_jobs e self w = Some (Inr (job # jobs), w')"
    from retrieve_pending_jobs_empty [OF this] show False by simp
  qed
qed

section \<open>Waiting: results\<close>

lemma for_pending_jobs_Nil: "for_pending_jobs e self i [] w = (Inr (), [], w)"
  by simp

lemma wait_on_completion_result:
  assumes "wait_on_completion e self ps w = Some r"
  shows "ps \<noteq> [] \<and> (\<exists>x. fst r = Inl x)"
proof (rule wait_on_completion.raw_induct
    [where P = "\<lambda>e self ps w r. ps \<noteq> [] \<and> (\<exists>x. fst r = Inl x)", OF _ assms])
  fix f :: "env \<Rightarrow> job_runner \<Rightarrow> (nmpi_job \<times> saga_job) list \<Rightarrow> world
              \<Rightarrow> ((exn + unit) \<times> (nmpi_job \<times> saga_job) list \<times> world) option"
  fix e self ps w r
  assume IH: "\<And>e self ps w r. f e self ps w = Some r \<Longrightarrow> ps \<noteq> [] \<and> (\<exists>x. fst r = Inl x)"
    and step: "(if is_new_empty_list ps then Some (Inr (), ps, w)
                else (case for_pending_jobs e self 0 ps w of
                        (Inl x, pending1, w1) \<Rightarrow> Some (Inl x, pending1, w1)
                      | (Inr u, pending1, w1) \<Rightarrow> f e self pending1 w1)) = Some r"
  show "ps \<noteq> [] \<and> (\<exists>x. fst r = Inl x)"
  proof (cases "for_pending_jobs e self 0 ps w")
    case (fields res pending1 w1)
    show ?thesis
    proof (cases res)
      case (Inl x)
      with fields step have "r = (Inl x, pending1, w1)"
        by (simp add: is_new_empty_list_def)
      moreover have "ps \<noteq> []"
        using fields Inl by (auto simp del: for_pending_jobs.simps simp add: for_pending_jobs_Nil)
      ultimately show ?thesis by simp
    next
      case (Inr u)
      with fields step have rec: "f e self pending1 w1 = Some r"
        by (simp add: is_new_empty_list_def)
      from IH [OF rec] have ne: "pending1 \<noteq> []" and x: "\<exists>x. fst r = Inl x" by simp_all
      have "ps \<noteq> []"
      proof
        assume "ps = []"
        with fields have "pending1 = []" by simp
        with ne show False by simp
      qed
      with x show ?thesis by simp
    qed
  qed
qed

lemma wait_on_completion_Nil: "wait_on_completion e self [] w = None"
proof (cases "wait_on_completion e self [] w")
  case (Some r)
  from wait_on_completion_result [OF Some] show ?thesis by simp
qed simp

text \<open>
  One round of the loop over a single job that the backend reports as failed:
  the job is removed from the list and its status and log are sent to the
  server.
\<close>

lemma one_failed_job_round:
  "for_pending_jobs (quiet_env\<lparr>backend_state := (\<lambda>sid k. FAILED)\<rparr>) example_runner 0
     [(example_job, example_handle)] world0
   = (Inr (), [],
      world0\<lparr>polls := 2, clock_reads := 1,
             requests :=
               [Put ''https://nmpi/api/v2/queue/42''
                  (JobFields (example_job\<lparr>status := ''error''\<rparr>)),
                Put ''https://nmpi/api/v2/log/42''
                  (LogContent (log_entry FAILED example_handle world0
                                 ''2016-01-01T00:00:00''))]\<rparr>)"
  by (simp add: wait_body_def get_state_def remove_and_update_def update_status_def
      default_job_states_def job_failed_def pop_log_def isoformat_now_def update_job_def
      put_def log_url_def quiet_env_def world0_def example_runner_def example_job_def
      read_output_def example_handle_def newline_def truncate_string_def MAX_LOG_SIZE_def
      Let_def)

text \<open>
  C2 (the code departs from the claim).  \<open>wait_on_completion\<close> never returns: on
  the empty in-flight list it loops forever; on a list of one job that the
  backend reports as failed it removes the job and then loops forever on the
  empty list; and on no list does it return normally (it either loops forever
  or raises).
\<close>

theorem wait_never_returns:
  "wait_on_completion e self [] w = None
   \<and> wait_on_completion (quiet_env\<lparr>backend_state := (\<lambda>sid k. FAILED)\<rparr>) example_runner
         [(example_job, example_handle)] world0 = None
   \<and> (\<forall>ps u left w'. wait_on_completion e self ps w \<noteq> Some (Inr u, left, w'))"
proof (intro conjI)
  show "wait_on_completion e self [] w = None"
    by (rule wait_on_completion_Nil)
  show "wait_on_completion (quiet_env\<lparr>backend_state := (\<lambda>sid k. FAILED)\<rparr>) example_runner
         [(example_job, example_handle)] world0 = None"
    by (subst wait_on_completion.simps)
       (simp add: is_new_empty_list_def one_failed_job_round wait_on_completion_Nil
          del: for_pending_jobs.simps)
  show "\<forall>ps u left w'. wait_on_completion e self ps w \<noteq> Some (Inr u, left, w')"
  proof (intro allI notI)
    fix ps u left w'
    assume "wait_on_completion e self ps w = Some (Inr u, left, w')"
    from wait_on_completion_result [OF this] show False by simp
  qed
qed

section \<open>One cycle: results\<close>

lemma runner_next_result:
  assumes "runner_next e self w = Some r"
  shows "\<exists>x. fst r = Inl x"
  using assms unfolding runner_next_def
  by (auto split: option.splits prod.splits sum.splits dest!: wait_on_completion_result)
     (metis fst_conv)

text \<open>
  C3 (the code departs from the claim).  \<open>JobRunner.next\<close> returns no set of
  jobs: with one job in the queue the cycle never ends, and for no queue,
  backend or file system does it return normally.
\<close>

theorem runner_next_never_returns:
  "runner_next (quiet_env\<lparr>query_result := one_job_queue\<rparr>) example_runner world0 = None
   \<and> (\<forall>e self w jobs w'. runner_next e self w \<noteq> Some (Inr jobs, w'))"
proof
  have wt: "wait_on_completion e self [] w = None" for e self w
  proof (cases "wait_on_completion e self [] w")
    case (Some r)
    from wait_on_completion_result [OF Some] show ?thesis by simp
  qed simp
  show "runner_next (quiet_env\<lparr>query_result := one_job_queue\<rparr>) example_runner world0 = None"
    by (simp add: runner_next_def retrieve_one_job_queue submit_jobs_def wt)
  show "\<forall>e self w jobs w'. runner_next e self w \<noteq> Some (Inr jobs, w')"
  proof (intro allI notI)
    fix e self w jobs w'
    assume "runner_next e self w = Some (Inr jobs, w')"
    from runner_next_result [OF this] show False by simp
  qed
qed

section \<open>Obtaining the code: results\<close>

text \<open>
  With the arguments in the order \<open>run\<close> passes them, \<open>get_code\<close> subscripts a path
  with \<open>'code'\<close>; so \<open>run\<close> either fails to build the description or raises.
\<close>

lemma get_code_swapped:
  "get_code e (PJob j) (PStr p) script w
     = (Inl (TypeError ''string indices must be integers, not str''), w)"
  by (simp add: get_code_def)

lemma run_cases:
  "run e self j w =
     (case build_job_description e self j of
        Inl x \<Rightarrow> (Inr (None, ''Failed to build job description with error: '' @ repr x), w)
      | Inr job_desc \<Rightarrow>
          (case arguments job_desc of
             [] \<Rightarrow> (Inl (IndexError ''list index out of range''), w)
           | script_name # others \<Rightarrow>
               (Inl (TypeError ''string indices must be integers, not str''), w)))"
  by (simp add: run_def get_code_swapped split: sum.splits list.splits)

text \<open>
  C8 (the code departs from the claim).  For the job whose code is \<open>print('hi')\<close>,
  \<open>run\<close> raises a \<open>TypeError\<close> out of \<open>get_code\<close> and no file is written.  Called
  with its arguments in the order of its signature, \<open>get_code\<close> does write the
  text to the script file and returns \<open>None\<close>.
\<close>

theorem run_literal_code:
  "run quiet_env example_runner example_job world0
     = (Inl (TypeError ''string indices must be integers, not str''), world0)
   \<and> files (snd (run quiet_env example_runner example_job world0)) = Map.empty
   \<and> get_code quiet_env (PStr ''/work/job_42'') (PJob example_job) ''/work/job_42/run.py'' world0
     = (Inr None, world0\<lparr>files := [''/work/job_42/run.py'' \<mapsto> code example_job],
                         made_dirs := [''/work/job_42'']\<rparr>)"
  by (simp add: run_cases build_job_description_def example_runner_def example_job_def
      quiet_env_def world0_def join_def DEFAULT_PYNN_VERSION_def DEFAULT_SCRIPT_NAME_def
      get_code_def py_str_def write_script_def create_working_directory_def path_exists_def
      makedirs_def write_file_def endswith_any_def endswith_def)

section \<open>Status functions: results\<close>

lemma read_output_clock [simp]:
  "read_output sj (w\<lparr>clock_reads := n\<rparr>) = read_output sj w"
  by (simp add: read_output_def Let_def split: option.splits)

lemma log_entry_clock [simp]:
  "log_entry st sj (w\<lparr>clock_reads := n\<rparr>) t = log_entry st sj w t"
  by (cases st) simp_all








text \<open>
  C9.  The dispatch table has exactly the entries pending, running, done and
  failed.  For a job the backend reports as canceled, \<open>_update_status\<close> raises a
  \<open>KeyError\<close> and returns no job record, and the body of the wait loop raises an
  \<open>AttributeError\<close> when it reads \<open>saga_job.job\<close>, before any request is sent.
\<close>

theorem dispatch_table:
  "default_job_states PENDING = Some job_pending
   \<and> default_job_states RUNNING = Some job_running
   \<and> default_job_states DONE = Some job_done
   \<and> default_job_states FAILED = Some job_failed
   \<and> dom default_job_states = {PENDING, RUNNING, DONE, FAILED}
   \<and> default_job_states CANCELED = None
   \<and> (backend_state e (sj_id sj) (polls w) = CANCELED \<longrightarrow>
        update_status e self j sj default_job_states w
          = (Inl (KeyError ''Canceled''), j, w\<lparr>polls := Suc (polls w)\<rparr>))
   \<and> (backend_state e (sj_id (snd (ps ! i))) (polls w) = CANCELED \<longrightarrow>
        wait_body e self i ps w
          = (Inl (AttributeError ''job''), ps, w\<lparr>polls := Suc (polls w)\<rparr>))"
proof -
  have dom: "dom default_job_states = {PENDING, RUNNING, DONE, FAILED}"
    by (auto simp add: default_job_states_def split: if_splits)
  have upd: "update_status e self j sj default_job_states w
          = (Inl (KeyError ''Canceled''), j, w\<lparr>polls := Suc (polls w)\<rparr>)"
    if "backend_state e (sj_id sj) (polls w) = CANCELED"
    using that by (simp add: update_status_def get_state_def default_job_states_def)
  have body: "wait_body e self i ps w
          = (Inl (AttributeError ''job''), ps, w\<lparr>polls := Suc (polls w)\<rparr>)"
    if "backend_state e (sj_id (snd (ps ! i))) (polls w) = CANCELED"
  proof -
    obtain j' sj' where at: "ps ! i = (j', sj')" by (cases "ps ! i")
    with that have "backend_state e (sj_id sj') (polls w) = CANCELED" by simp
    with at show ?thesis
      by (simp add: wait_body_def get_state_def saga_job_job_CANCELED_def)
  qed
  show ?thesis
    using dom upd body by (simp add: default_job_states_def)
qed

theorem dispatch_table_witness:
  "update_status (quiet_env\<lparr>backend_state := (\<lambda>sid k. CANCELED)\<rparr>) example_runner
     example_job example_handle default_job_states world0
     = (Inl (KeyError ''Canceled''), example_job, world0\<lparr>polls := 1\<rparr>)
   \<and> wait_body (quiet_env\<lparr>backend_state := (\<lambda>sid k. CANCELED)\<rparr>) example_runner 0
       [(example_job, example_handle)] world0
     = (Inl (AttributeError ''job''), [(example_job, example_handle)], world0\<lparr>polls := 1\<rparr>)
   \<and> requests (snd (snd (wait_body (quiet_env\<lparr>backend_state := (\<lambda>sid k. CANCELED)\<rparr>)
        example_runner 0 [(example_job, example_handle)] world0))) = []"
  using dispatch_table [of "quiet_env\<lparr>backend_state := (\<lambda>sid k. CANCELED)\<rparr>" example_handle
      world0 example_runner example_job "[(example_job, example_handle)]" 0]
  by (simp add: quiet_env_def world0_def)

section \<open>HardwareClient: results\<close>

text \<open>
  C6.  \<open>kill_job\<close> on a job whose status is neither \<open>running\<close> nor \<open>submitted\<close> raises
  and leaves the job and the world as they were.  On a job whose status is one
  of the two it sets the status to \<open>error\<close>, and when both requests reach the
  server they are the job without its log, and the log followed by the
  operator's message and the message supplied.
\<close>

theorem kill_job_contract:
  "(status job \<notin> {''running'', ''submitted''} \<longrightarrow>
      kill_job e c job msg w
        = (Inl (Exception (''You cannot kill a job with status '' @ status job)), job, w))
   \<and> (status job \<in> {''running'', ''submitted''} \<longrightarrow>
        status (fst (snd (kill_job e c job msg w))) = ''error''
        \<and> (put_result e (job_server c @ resource_uri job) = Inr r1 \<longrightarrow>
            put_result e (log_url c job) = Inr r2 \<longrightarrow>
            kill_job e c job msg w
              = (Inr r1, job\<lparr>status := ''error'', log := None\<rparr>,
                 w\<lparr>requests := requests w @
                     [Put (job_server c @ resource_uri job)
                        (JobFields (job\<lparr>status := ''error'', log := None\<rparr>)),
                      Put (log_url c job)
                        (LogContent (log_or_empty job @ operator_message @ msg))]\<rparr>)))"
  by (auto simp add: kill_job_def pop_log_def put_def log_url_def log_or_empty_def Let_def
        split: sum.splits prod.splits option.splits)

theorem kill_job_contract_witness:
  "status (example_job\<lparr>status := ''finished''\<rparr>) \<notin> {''running'', ''submitted''}
   \<and> kill_job quiet_env (client example_runner) (example_job\<lparr>status := ''finished''\<rparr>)
         ''boom'' world0
       = (Inl (Exception ''You cannot kill a job with status finished''),
          example_job\<lparr>status := ''finished''\<rparr>, world0)
   \<and> status (example_job\<lparr>log := Some ''started''\<rparr>) \<in> {''running'', ''submitted''}
   \<and> kill_job quiet_env (client example_runner) (example_job\<lparr>log := Some ''started''\<rparr>)
         ''boom'' world0
       = (Inr ''ok'', example_job\<lparr>status := ''error''\<rparr>,
          world0\<lparr>requests :=
            [Put ''https://nmpi/api/v2/queue/42'' (JobFields (example_job\<lparr>status := ''error''\<rparr>)),
             Put ''https://nmpi/api/v2/log/42''
               (LogContent (''started'' @ operator_message @ ''boom''))]\<rparr>)"
  using kill_job_contract [of "example_job\<lparr>status := ''finished''\<rparr>" quiet_env
      "client example_runner" "''boom''" world0]
    kill_job_contract [of "example_job\<lparr>log := Some ''started''\<rparr>" quiet_env
      "client example_runner" "''boom''" world0 "''ok''" "''ok''"]
  by (simp add: example_job_def example_runner_def quiet_env_def world0_def log_url_def
      log_or_empty_def)

section \<open>Output data: results\<close>

text \<open>
  The posting loop on a list whose first files are registered and whose next
  file is refused: the references of the first files stay in \<open>output_data\<close>.
\<close>

lemma post_data_items_fails_at:
  assumes "map (\<lambda>f. create_data_item_result e (data_item_url cfg wd f)) ok = map Inr refs"
    and "create_data_item_result e (data_item_url cfg wd bad) = Inl x"
  shows "post_data_items e cfg wd (ok @ bad # rest) j w =
           (Some (''Failed to create data item remotely at '' @ data_item_url cfg wd bad
                    @ '': '' @ repr x),
            j\<lparr>output_data := output_data j @ refs\<rparr>,
            w\<lparr>requests := requests w @ map (\<lambda>f. PostDataItem (data_item_url cfg wd f)) ok\<rparr>)"
  using assms(1)
proof (induction ok arbitrary: refs j w)
  case Nil
  then show ?case using assms(2) by (simp add: create_data_item_def)
next
  case (Cons f ok)
  then obtain r rs where refs: "refs = r # rs"
    and r: "create_data_item_result e (data_item_url cfg wd f) = Inr r"
    and rs: "map (\<lambda>f. create_data_item_result e (data_item_url cfg wd f)) ok = map Inr rs"
    by (cases refs) auto
  show ?case
    using Cons.IH [OF rs] r by (simp add: refs create_data_item_def)
qed

text \<open>
  C10.  When the copying succeeds, the registration of the first files \<open>ok\<close>
  returns the references \<open>refs\<close> and the registration of the next file \<open>bad\<close>
  raises, \<open>_handle_output_data\<close> returns the message of that failure, the job's
  \<open>output_data\<close> has grown by the references \<open>refs\<close>, one for each file of \<open>ok\<close>, and
  the only requests sent are the registrations of \<open>ok\<close> (the job is not updated
  on the server).
\<close>

theorem harvest_not_atomic:
  assumes "find_new_data_files e (working_directory (description sj)) (start_time sj)
             ignoredirs_default ignore_extensions_default = ok @ bad # rest"
    and "copy_output_files e (runner_config self) (description sj) (ok @ bad # rest) w
           = (None, w2)"
    and "map (\<lambda>f. create_data_item_result e
                 (data_item_url (runner_config self) (working_directory (description sj)) f)) ok
           = map Inr refs"
    and "create_data_item_result e
           (data_item_url (runner_config self) (working_directory (description sj)) bad) = Inl x"
  shows "JobRunner_handle_output_data e self j sj w =
           (Some (''Failed to create data item remotely at ''
                    @ data_item_url (runner_config self) (working_directory (description sj)) bad
                    @ '': '' @ repr x),
            j\<lparr>output_data := output_data j @ refs\<rparr>,
            w2\<lparr>requests := requests w2 @
                  map (\<lambda>f. PostDataItem (data_item_url (runner_config self)
                                            (working_directory (description sj)) f)) ok\<rparr>)
         \<and> length refs = length ok"
proof -
  have len: "length refs = length ok"
    using arg_cong [OF assms(3), of length] by simp
  show ?thesis
    using len
    by (simp add: JobRunner_handle_output_data_def Let_def assms(1,2)
          post_data_items_fails_at [OF assms(3,4)])
qed

theorem harvest_not_atomic_witness:
  "find_new_data_files two_files_env ''/work/job_42'' 1000 ignoredirs_default
      ignore_extensions_default = [''a.dat'', ''b.dat'']
   \<and> fst (JobRunner_handle_output_data two_files_env example_runner example_job example_handle world0)
       = Some (''Failed to create data item remotely at http://data/job_42/b.dat: ''
                 @ repr (IOError ''connection refused''))
   \<and> output_data (fst (snd (JobRunner_handle_output_data two_files_env example_runner example_job
        example_handle world0))) = [''/api/v2/dataitem/1'']"
proof -
  let ?w2 = "world0\<lparr>made_dirs := [''/data'', ''/data/job_42''],
                   copies := [(''/work/job_42/a.dat'', ''/data/job_42/a.dat''),
                              (''/work/job_42/b.dat'', ''/data/job_42/b.dat'')]\<rparr>"
  have files: "find_new_data_files two_files_env (working_directory (description example_handle))
      (start_time example_handle) ignoredirs_default ignore_extensions_default
      = [''a.dat''] @ ''b.dat'' # []"
    by (simp add: find_new_data_files_def walk_new_files.simps os_listdir_def two_files_env_def
        quiet_env_def example_handle_def ignoredirs_default_def ignore_extensions_default_def prune_dirs_def
        splitext_ext_def basename_def join_def)
  have copy: "copy_output_files two_files_env (runner_config example_runner)
      (description example_handle) ([''a.dat''] @ ''b.dat'' # []) world0 = (None, ?w2)"
    by (simp add: copy_output_files_def two_files_env_def quiet_env_def example_runner_def
        example_handle_def world0_def path_exists_def makedirs_def copyfile_def join_def
        basename_def dirname_def rstrip_slash_def)
  have ok: "map (\<lambda>f. create_data_item_result two_files_env
                 (data_item_url (runner_config example_runner)
                    (working_directory (description example_handle)) f)) [''a.dat'']
           = map Inr [''/api/v2/dataitem/1'']"
    by (simp add: two_files_env_def quiet_env_def data_item_url_def example_runner_def
        example_handle_def basename_def)
  have bad: "create_data_item_result two_files_env
           (data_item_url (runner_config example_runner)
              (working_directory (description example_handle)) ''b.dat'')
           = Inl (IOError ''connection refused'')"
    by (simp add: two_files_env_def quiet_env_def data_item_url_def example_runner_def
        example_handle_def basename_def)
  have url: "data_item_url (runner_config example_runner)
              (working_directory (description example_handle)) ''b.dat''
             = ''http://data/job_42/b.dat''"
    by (simp add: data_item_url_def example_runner_def example_handle_def basename_def)
  have out: "output_data example_job = []"
    by (simp add: example_job_def)
  from harvest_not_atomic [OF files copy ok bad, of example_job] files url out
  show ?thesis
    by (simp add: example_handle_def)
qed

section \<open>Finding new data files: results\<close>


lemma valid_name_hd: "valid_name n \<Longrightarrow> n \<noteq> [] \<and> hd n \<noteq> CHR ''/'' \<and> last n \<noteq> CHR ''/''"
  unfolding valid_name_def by (metis hd_in_set last_in_set)




lemma well_formed_file: "well_formed es \<Longrightarrow> File f m \<in> set es \<Longrightarrow> valid_name f"
  by (induction es rule: well_formed.induct) auto

lemma well_formed_dir:
  "well_formed es \<Longrightarrow> Dir d sub \<in> set es \<Longrightarrow> valid_name d \<and> well_formed sub"
  by (induction es rule: well_formed.induct) auto





lemma harvestable_path:
  "harvestable ts igd ige es p \<Longrightarrow> well_formed es \<Longrightarrow> p \<noteq> [] \<and> hd p \<noteq> CHR ''/''"
proof (induction rule: harvestable.induct)
  case (here f m entries)
  then show ?case using well_formed_file valid_name_hd by blast
next
  case (below d sub entries p)
  then have "valid_name d" using well_formed_dir by blast
  then show ?case using valid_name_hd [of d] by (cases d) auto
qed






end
